theory Spec2Isabelle
  imports Complex_Main
begin

section \<open>The record set: a date-indexed table of market metrics\<close>

text \<open>
  The dashboard script \<^verbatim>\<open>app.py\<close> reads one CSV file into a pandas DataFrame whose
  index is the parsed \<^verbatim>\<open>date\<close> column, slices it by the date range picked in the
  sidebar, and hands the slice to five tabs. The script is modelled top to bottom; the
  pandas, plotly and streamlit calls it makes are modelled by their documented results.

  A \<^verbatim>\<open>datetime.date\<close> is its proleptic Gregorian ordinal (\<^verbatim>\<open>date.toordinal()\<close>), a
  pandas \<^verbatim>\<open>Timestamp\<close> is its number of nanoseconds since 1970-01-01T00:00, as pandas
  stores it. A float cell is either NaN or a number; numbers are rationals, so the
  rounding of the IEEE format is not part of the model.
\<close>

type_synonym date = int
type_synonym timestamp = int

datatype cell = NaN | Num rat

datatype error =
    KeyError string
  | ValueError string
  | ReferenceError nat

record dataframe =
  columns :: "string list"
  rows :: "(timestamp \<times> cell list) list"

definition index_of :: "dataframe \<Rightarrow> timestamp list" where
  "index_of df = map fst (rows df)"

definition bindE :: "error + 'a \<Rightarrow> ('a \<Rightarrow> error + 'b) \<Rightarrow> error + 'b" where
  "bindE m f = (case m of Inl e \<Rightarrow> Inl e | Inr x \<Rightarrow> f x)"

subsection \<open>Calendar dates and timestamps\<close>

definition is_leap :: "int \<Rightarrow> bool" where
  "is_leap year = (year mod 4 = 0 \<and> (year mod 100 \<noteq> 0 \<or> year mod 400 = 0))"

definition days_before_year :: "int \<Rightarrow> int" where
  "days_before_year year =
     (let y = year - 1 in y * 365 + y div 4 - y div 100 + y div 400)"

definition days_before_month :: "int \<Rightarrow> int \<Rightarrow> int" where
  "days_before_month year month =
     [0, 0, 31, 59, 90, 120, 151, 181, 212, 243, 273, 304, 334] ! nat month
       + (if month > 2 \<and> is_leap year then 1 else 0)"

definition ymd2ord :: "int \<Rightarrow> int \<Rightarrow> int \<Rightarrow> date" where
  "ymd2ord year month day = days_before_year year + days_before_month year month + day"

definition ns_per_day :: int where
  "ns_per_day = 86400000000000"

definition epoch_ordinal :: date where
  "epoch_ordinal = 719163"

text \<open>\<^verbatim>\<open>Timestamp(d)\<close> for a date: midnight of that day.\<close>

definition Timestamp :: "date \<Rightarrow> timestamp" where
  "Timestamp d = (d - epoch_ordinal) * ns_per_day"

text \<open>\<^verbatim>\<open>ts.date()\<close>: the calendar day a timestamp falls on.\<close>

definition date_of :: "timestamp \<Rightarrow> date" where
  "date_of ts = ts div ns_per_day + epoch_ordinal"

text \<open>\<^verbatim>\<open>pd.to_datetime('YYYY-MM-DD')\<close> of a date literal.\<close>

definition to_datetime :: "int \<Rightarrow> int \<Rightarrow> int \<Rightarrow> timestamp" where
  "to_datetime year month day = Timestamp (ymd2ord year month day)"

subsection \<open>Index minimum and maximum, comparisons with NaT\<close>

text \<open>
  \<^verbatim>\<open>index.min()\<close> and \<^verbatim>\<open>index.max()\<close> of an empty index are \<^verbatim>\<open>NaT\<close>, here
  \<open>None\<close>; every comparison with \<^verbatim>\<open>NaT\<close> is false.
\<close>

definition index_min :: "dataframe \<Rightarrow> timestamp option" where
  "index_min df = (case index_of df of [] \<Rightarrow> None | k # ks \<Rightarrow> Some (fold min ks k))"

definition index_max :: "dataframe \<Rightarrow> timestamp option" where
  "index_max df = (case index_of df of [] \<Rightarrow> None | k # ks \<Rightarrow> Some (fold max ks k))"

fun ts_le :: "timestamp option \<Rightarrow> timestamp option \<Rightarrow> bool" where
  "ts_le (Some a) (Some b) = (a \<le> b)"
| "ts_le _ _ = False"

fun ts_ge :: "timestamp option \<Rightarrow> timestamp option \<Rightarrow> bool" where
  "ts_ge (Some a) (Some b) = (a \<ge> b)"
| "ts_ge _ _ = False"

section \<open>The date-range filter\<close>

subsection \<open>Label slicing of a DatetimeIndex\<close>

text \<open>
  \<^verbatim>\<open>df.loc[start_date:end_date]\<close> asks the index for the positions of the two bounds
  (\<^verbatim>\<open>Index.slice_locs\<close>) and takes the rows between them. A bound that is a
  \<^verbatim>\<open>datetime.date\<close> is read as the timestamp at midnight. A bound found in the index
  gives the position of its first occurrence (left) or one past its last (right),
  provided its occurrences are adjacent; a bound not in the index is located by binary
  search when the index is monotonic, and is a \<^verbatim>\<open>KeyError\<close> otherwise.
\<close>

datatype side = Left | Right

definition is_monotonic_increasing :: "timestamp list \<Rightarrow> bool" where
  "is_monotonic_increasing ks = sorted ks"

definition is_monotonic_decreasing :: "timestamp list \<Rightarrow> bool" where
  "is_monotonic_decreasing ks = sorted (rev ks)"

text \<open>The insertion point of a label in an ascending list.\<close>

fun searchsorted :: "timestamp list \<Rightarrow> timestamp \<Rightarrow> side \<Rightarrow> nat" where
  "searchsorted ks label Left = length (filter (\<lambda>k. k < label) ks)"
| "searchsorted ks label Right = length (filter (\<lambda>k. k \<le> label) ks)"

fun other_side :: "side \<Rightarrow> side" where
  "other_side Left = Right"
| "other_side Right = Left"

definition searchsorted_monotonic :: "timestamp list \<Rightarrow> timestamp \<Rightarrow> side \<Rightarrow> error + nat" where
  "searchsorted_monotonic ks label sd =
     (if is_monotonic_increasing ks then Inr (searchsorted ks label sd)
      else if is_monotonic_decreasing ks
        then Inr (length ks - searchsorted (rev ks) label (other_side sd))
      else Inl (ValueError ''index must be monotonic increasing or decreasing''))"

definition get_slice_bound :: "timestamp list \<Rightarrow> timestamp \<Rightarrow> side \<Rightarrow> error + nat" where
  "get_slice_bound ks label sd =
     (if label \<in> set ks then
        (let i = length (takeWhile (\<lambda>k. k \<noteq> label) ks);
             n = count_list ks label
         in if take n (drop i ks) = replicate n label
            then Inr (case sd of Left \<Rightarrow> i | Right \<Rightarrow> i + n)
            else Inl (KeyError ''Cannot get slice bound for non-unique label''))
      else
        (case searchsorted_monotonic ks label sd of
           Inr p \<Rightarrow> Inr p
         | Inl _ \<Rightarrow> Inl (KeyError ''label not in index'')))"

definition loc_slice :: "dataframe \<Rightarrow> date \<Rightarrow> date \<Rightarrow> error + dataframe" where
  "loc_slice df start_date end_date =
     bindE (get_slice_bound (index_of df) (Timestamp start_date) Left) (\<lambda>lo.
     bindE (get_slice_bound (index_of df) (Timestamp end_date) Right) (\<lambda>hi.
       Inr (df\<lparr>rows := drop lo (take hi (rows df))\<rparr>)))"

text \<open>\<^verbatim>\<open>df.copy()\<close>: a new frame with the same contents.\<close>

definition copy :: "dataframe \<Rightarrow> dataframe" where
  "copy df = df"

subsection \<open>The filter of the script\<close>

text \<open>
  \<^verbatim>\<open>
  if len(date_range) == 2:
      start_date, end_date = date_range
      filtered_df = df.loc[start_date:end_date]
  else:
      filtered_df = df.copy()
  \<close>
  The date picker returns a tuple of zero, one or two dates.
\<close>

definition filtered_df :: "dataframe \<Rightarrow> date list \<Rightarrow> error + dataframe" where
  "filtered_df df date_range =
     (if length date_range = 2
      then (let start_date = date_range ! 0; end_date = date_range ! 1
            in loc_slice df start_date end_date)
      else Inr (copy df))"

text \<open>The default selection of the picker starts at \<^verbatim>\<open>df.index.min().date()\<close>.\<close>

definition min_date :: "dataframe \<Rightarrow> date option" where
  "min_date df = map_option date_of (index_min df)"

section \<open>The chart builders\<close>

text \<open>
  A plotly figure is kept as the data the script puts into it: its traces, its shapes
  and the layout settings in which the four charts differ. \<^verbatim>\<open>filtered_df['c']\<close> raises \<^verbatim>\<open>KeyError\<close> when the frame
  has no column \<^verbatim>\<open>c\<close>. A row shorter than the header reads as NaN in the missing
  columns, as \<^verbatim>\<open>read_csv\<close> fills it.
\<close>

fun find_col :: "string \<Rightarrow> string list \<Rightarrow> nat option" where
  "find_col c [] = None"
| "find_col c (d # ds) = (if c = d then Some 0 else map_option Suc (find_col c ds))"

definition cell_at :: "cell list \<Rightarrow> nat \<Rightarrow> cell" where
  "cell_at cs i = (if i < length cs then cs ! i else NaN)"

text \<open>The value of a row in the column named \<open>c\<close>.\<close>

definition cell_of :: "dataframe \<Rightarrow> timestamp \<times> cell list \<Rightarrow> string \<Rightarrow> cell" where
  "cell_of df r c = (case find_col c (columns df) of Some i \<Rightarrow> cell_at (snd r) i | None \<Rightarrow> NaN)"

definition getitem :: "dataframe \<Rightarrow> string \<Rightarrow> error + cell list" where
  "getitem df c =
     (case find_col c (columns df) of
        None \<Rightarrow> Inl (KeyError c)
      | Some i \<Rightarrow> Inr (map (\<lambda>r. cell_at (snd r) i) (rows df)))"

record trace =
  trace_x :: "timestamp list"
  trace_y :: "cell list"
  trace_name :: string
  line_color :: string
  line_width :: "nat option"
  secondary_y :: bool

datatype shape =
    VRect timestamp timestamp string
  | ZeroLine "timestamp option" "timestamp option"

record figure =
  traces :: "trace list"
  shapes :: "shape list"
  title :: string
  yaxis_log :: bool
  yaxis_range :: "(int \<times> int) option"
  height :: nat

definition Scatter :: "timestamp list \<Rightarrow> cell list \<Rightarrow> string \<Rightarrow> string \<Rightarrow> nat option \<Rightarrow> bool \<Rightarrow> trace" where
  "Scatter xs ys nm col w sec =
     \<lparr>trace_x = xs, trace_y = ys, trace_name = nm, line_color = col, line_width = w,
      secondary_y = sec\<rparr>"

subsection \<open>Tab 1: prices and moving averages, with the correction band\<close>

text \<open>
  \<^verbatim>\<open>
  if pd.to_datetime('2026-02-01') <= filtered_df.index.max() and
     pd.to_datetime('2026-02-16') >= filtered_df.index.min():
      fig1.add_vrect(x0='2026-02-01', x1='2026-02-16', ...)
  \<close>
\<close>

definition correction_in_range :: "dataframe \<Rightarrow> bool" where
  "correction_in_range fdf =
     (ts_le (Some (to_datetime 2026 2 1)) (index_max fdf)
      \<and> ts_ge (Some (to_datetime 2026 2 16)) (index_min fdf))"

definition correction_vrect :: shape where
  "correction_vrect = VRect (to_datetime 2026 2 1) (to_datetime 2026 2 16) ''Early 2026 Correction''"

definition fig1 :: "dataframe \<Rightarrow> error + figure" where
  "fig1 fdf =
     bindE (getitem fdf ''btc_price_usd'') (\<lambda>btc.
     bindE (getitem fdf ''btc_price_30d_ma'') (\<lambda>btc_ma.
     bindE (getitem fdf ''eth_price_usd'') (\<lambda>eth.
     bindE (getitem fdf ''eth_price_30d_ma'') (\<lambda>eth_ma.
       Inr \<lparr>traces =
              [Scatter (index_of fdf) btc ''BTC Price'' ''orange'' None False,
               Scatter (index_of fdf) btc_ma ''BTC 30d MA'' ''darkorange'' (Some 3) False,
               Scatter (index_of fdf) eth ''ETH Price'' ''blue'' None True,
               Scatter (index_of fdf) eth_ma ''ETH 30d MA'' ''navy'' (Some 3) True],
            shapes = (if correction_in_range fdf then [correction_vrect] else []),
            title = ''BTC & ETH Prices with 30-Day Moving Averages'',
            yaxis_log = False, yaxis_range = None, height = 600\<rparr>))))"

subsection \<open>Tab 2: volatility\<close>

definition fig2 :: "dataframe \<Rightarrow> error + figure" where
  "fig2 fdf =
     bindE (getitem fdf ''btc_vol_30d'') (\<lambda>btc.
     bindE (getitem fdf ''eth_vol_30d'') (\<lambda>eth.
       Inr \<lparr>traces =
              [Scatter (index_of fdf) btc ''BTC 30d Vol (Ann.)'' ''orange'' None False,
               Scatter (index_of fdf) eth ''ETH 30d Vol (Ann.)'' ''blue'' None False],
            shapes = [],
            title = ''30-Day Annualized Volatility'',
            yaxis_log = False, yaxis_range = None, height = 550\<rparr>))"

subsection \<open>Tab 3: correlation\<close>

text \<open>
  \<^verbatim>\<open>px.line\<close> raises \<^verbatim>\<open>ValueError\<close> for a column name the frame does not have, and
  draws one line trace otherwise. The zero line runs from \<^verbatim>\<open>index.min()\<close> to
  \<^verbatim>\<open>index.max()\<close>, which are \<^verbatim>\<open>NaT\<close> for an empty frame.
\<close>

definition fig3 :: "dataframe \<Rightarrow> error + figure" where
  "fig3 fdf =
     (case getitem fdf ''btc_eth_price_corr_90d'' of
        Inl _ \<Rightarrow> Inl (ValueError ''btc_eth_price_corr_90d'')
      | Inr corr \<Rightarrow>
          Inr \<lparr>traces = [Scatter (index_of fdf) corr [] ''purple'' (Some 3) False],
               shapes = [ZeroLine (index_min fdf) (index_max fdf)],
               title = ''90-Day Rolling Correlation'',
               yaxis_log = False, yaxis_range = Some (-1, 1), height = 550\<rparr>)"

subsection \<open>Tab 4: volume\<close>

definition fig4 :: "dataframe \<Rightarrow> error + figure" where
  "fig4 fdf =
     bindE (getitem fdf ''btc_volume_7d_ma'') (\<lambda>btc.
     bindE (getitem fdf ''eth_volume_7d_ma'') (\<lambda>eth.
       Inr \<lparr>traces =
              [Scatter (index_of fdf) btc ''BTC 7d Avg Volume'' ''orange'' None False,
               Scatter (index_of fdf) eth ''ETH 7d Avg Volume'' ''blue'' None False],
            shapes = [],
            title = ''7-Day Average Daily Volume (Log Scale)'',
            yaxis_log = True, yaxis_range = None, height = 550\<rparr>))"

subsection \<open>Tab 5: the recent rows and the download\<close>

text \<open>
  \<^verbatim>\<open>
  recent = filtered_df.tail(15)[[ ...nine columns... ]].round(2)
  st.dataframe(recent.style.format({ ... }))
  csv = filtered_df.to_csv().encode('utf-8')
  \<close>
\<close>

definition table_columns :: "string list" where
  "table_columns =
     [''btc_price_usd'', ''eth_price_usd'',
      ''btc_price_30d_ma'', ''eth_price_30d_ma'',
      ''btc_vol_30d'', ''eth_vol_30d'',
      ''btc_eth_price_corr_90d'',
      ''btc_volume_7d_ma'', ''eth_volume_7d_ma'']"

definition table_formats :: "(string \<times> string) list" where
  "table_formats =
     [(''btc_price_usd'', ''${:,.0f}''),
      (''eth_price_usd'', ''${:,.0f}''),
      (''btc_price_30d_ma'', ''${:,.0f}''),
      (''eth_price_30d_ma'', ''${:,.0f}''),
      (''btc_vol_30d'', ''{:.1f}%''),
      (''eth_vol_30d'', ''{:.1f}%''),
      (''btc_eth_price_corr_90d'', ''{:.3f}'')]"

text \<open>\<^verbatim>\<open>df.tail(n)\<close>: the last \<open>n\<close> rows, all of them when there are fewer.\<close>

definition tail :: "nat \<Rightarrow> dataframe \<Rightarrow> dataframe" where
  "tail n df = df\<lparr>rows := drop (length (rows df) - n) (rows df)\<rparr>"

text \<open>\<^verbatim>\<open>df[[c1, ..., cn]]\<close>: the listed columns in the listed order, or \<^verbatim>\<open>KeyError\<close>.\<close>

definition select_columns :: "string list \<Rightarrow> dataframe \<Rightarrow> error + dataframe" where
  "select_columns cs df =
     (case filter (\<lambda>c. find_col c (columns df) = None) cs of
        c # _ \<Rightarrow> Inl (KeyError c)
      | [] \<Rightarrow>
          Inr \<lparr>columns = cs, rows = map (\<lambda>r. (fst r, map (cell_of df r) cs)) (rows df)\<rparr>)"

text \<open>\<^verbatim>\<open>df.round(n)\<close> rounds every number to \<open>n\<close> decimals, halves to the even neighbour.\<close>

definition round_half_even :: "rat \<Rightarrow> int" where
  "round_half_even q =
     (let f = \<lfloor>q\<rfloor>; d = q - of_int f
      in if d < 1 / 2 then f else if 1 / 2 < d then f + 1 else if even f then f else f + 1)"

fun round_cell :: "nat \<Rightarrow> cell \<Rightarrow> cell" where
  "round_cell n NaN = NaN"
| "round_cell n (Num q) = Num (of_int (round_half_even (q * 10 ^ n)) / 10 ^ n)"

definition round_df :: "nat \<Rightarrow> dataframe \<Rightarrow> dataframe" where
  "round_df n df = df\<lparr>rows := map (\<lambda>r. (fst r, map (round_cell n) (snd r))) (rows df)\<rparr>"

definition recent :: "dataframe \<Rightarrow> error + dataframe" where
  "recent fdf = bindE (select_columns table_columns (tail 15 fdf)) (\<lambda>t. Inr (round_df 2 t))"

text \<open>
  \<^verbatim>\<open>df.to_csv()\<close> writes a header line (the index name \<^verbatim>\<open>date\<close>, then the column
  names) and one line per row: the index value, then the row's value in every column,
  NaN as an empty field. The text is kept as its lines of fields; how pandas prints a
  float or a timestamp is outside the model.
\<close>

datatype field = Label string | DateField timestamp | FloatField rat | Blank

fun field_of :: "cell \<Rightarrow> field" where
  "field_of NaN = Blank"
| "field_of (Num q) = FloatField q"

definition to_csv :: "dataframe \<Rightarrow> field list list" where
  "to_csv df =
     (Label ''date'' # map Label (columns df))
     # map (\<lambda>r. DateField (fst r) # map (\<lambda>i. field_of (cell_at (snd r) i)) [0..<length (columns df)])
           (rows df)"

record styler =
  shown :: dataframe
  formats :: "(string \<times> string) list"

section \<open>Loading\<close>

text \<open>
  \<^verbatim>\<open>
  @st.cache_data
  def load_data():
      try:
          df = pd.read_csv('enriched_btc_eth_metrics_2024_current.csv',
                           parse_dates=['date'], index_col='date')
          df.index = pd.to_datetime(df.index)
          return df
      except FileNotFoundError:
          st.error("Data file not found. ...")
          st.stop()
      except Exception as e:
          st.error(f"Error loading data: {e}")
          st.stop()
  \<close>
  The body of the \<^verbatim>\<open>try\<close> either yields the frame or raises; what it does is the
  argument of the model. \<^verbatim>\<open>st.error(msg)\<close> followed by \<^verbatim>\<open>st.stop()\<close> ends the run
  with the message on the page.
\<close>

datatype exn = FileNotFoundError | OtherException string

datatype 'a outcome = Returned 'a | Halted string

definition missing_file_message :: string where
  "missing_file_message =
     ''Data file not found. Please make sure 'enriched_btc_eth_metrics_2024_current.csv' exists in the same folder.''"

definition load_data :: "exn + dataframe \<Rightarrow> dataframe outcome" where
  "load_data file =
     (case file of
        Inr df \<Rightarrow> Returned df
      | Inl FileNotFoundError \<Rightarrow> Halted missing_file_message
      | Inl (OtherException e) \<Rightarrow> Halted (''Error loading data: '' @ e))"

section \<open>One run of the script over the session\<close>

text \<open>
  The session keeps the entry of \<^verbatim>\<open>st.cache_data\<close> for \<^verbatim>\<open>load_data\<close> and the frame
  objects alive in the process; an object is named by its position in \<open>heap\<close>. A call
  of the cached function hands out a fresh copy of the stored value, and runs the body
  only when nothing is stored; a run that halts stores nothing. The date picker is the
  environment of a run: \<open>date_range\<close> is the tuple it returned.
\<close>

record state =
  cache :: "dataframe option"
  heap :: "dataframe list"

type_synonym 'a action = "state \<Rightarrow> (error + 'a) \<times> state"

definition new_frame :: "dataframe \<Rightarrow> state \<Rightarrow> nat \<times> state" where
  "new_frame v s = (length (heap s), s\<lparr>heap := heap s @ [v]\<rparr>)"

definition frame_at :: "state \<Rightarrow> nat \<Rightarrow> dataframe option" where
  "frame_at s a = (if a < length (heap s) then Some (heap s ! a) else None)"

definition load_data_cached :: "exn + dataframe \<Rightarrow> state \<Rightarrow> nat outcome \<times> state" where
  "load_data_cached file s =
     (case cache s of
        Some v \<Rightarrow> (case new_frame (copy v) s of (a, s') \<Rightarrow> (Returned a, s'))
      | None \<Rightarrow>
          (case load_data file of
             Returned v \<Rightarrow> (case new_frame v (s\<lparr>cache := Some v\<rparr>) of (a, s') \<Rightarrow> (Returned a, s'))
           | Halted m \<Rightarrow> (Halted m, s)))"

definition returnS :: "'a \<Rightarrow> 'a action" where
  "returnS x s = (Inr x, s)"

definition bindS :: "'a action \<Rightarrow> ('a \<Rightarrow> 'b action) \<Rightarrow> 'b action" where
  "bindS m f s = (case m s of (Inl e, s') \<Rightarrow> (Inl e, s') | (Inr x, s') \<Rightarrow> f x s')"

text \<open>An operation that builds a new frame from the object at \<open>a\<close>.\<close>

definition derive :: "(dataframe \<Rightarrow> error + dataframe) \<Rightarrow> nat \<Rightarrow> nat action" where
  "derive f a s =
     (case frame_at s a of
        None \<Rightarrow> (Inl (ReferenceError a), s)
      | Some v \<Rightarrow>
          (case f v of
             Inl e \<Rightarrow> (Inl e, s)
           | Inr w \<Rightarrow> (case new_frame w s of (b, s') \<Rightarrow> (Inr b, s'))))"

text \<open>An operation that reads the object at \<open>a\<close>.\<close>

definition inspect :: "(dataframe \<Rightarrow> error + 'a) \<Rightarrow> nat \<Rightarrow> 'a action" where
  "inspect f a s =
     (case frame_at s a of
        None \<Rightarrow> (Inl (ReferenceError a), s)
      | Some v \<Rightarrow> (f v, s))"

record page =
  df_ref :: nat
  filtered_ref :: nat
  price_chart :: figure
  volatility_chart :: figure
  correlation_chart :: figure
  volume_chart :: figure
  recent_table :: styler
  csv :: "field list list"

definition render :: "nat \<Rightarrow> date list \<Rightarrow> page action" where
  "render df date_range =
     bindS (derive (\<lambda>v. filtered_df v date_range) df) (\<lambda>fdf.
     bindS (inspect fig1 fdf) (\<lambda>f1.
     bindS (inspect fig2 fdf) (\<lambda>f2.
     bindS (inspect fig3 fdf) (\<lambda>f3.
     bindS (inspect fig4 fdf) (\<lambda>f4.
     bindS (derive recent fdf) (\<lambda>r.
     bindS (inspect Inr r) (\<lambda>rv.
     bindS (inspect (\<lambda>v. Inr (to_csv v)) fdf) (\<lambda>c.
       returnS \<lparr>df_ref = df, filtered_ref = fdf,
                price_chart = f1, volatility_chart = f2,
                correlation_chart = f3, volume_chart = f4,
                recent_table = \<lparr>shown = rv, formats = table_formats\<rparr>,
                csv = c\<rparr>))))))))"

datatype result = Stopped string | Uncaught error | Rendered page

definition script :: "exn + dataframe \<Rightarrow> date list \<Rightarrow> state \<Rightarrow> result \<times> state" where
  "script file date_range s =
     (case load_data_cached file s of
        (Halted m, s1) \<Rightarrow> (Stopped m, s1)
      | (Returned df, s1) \<Rightarrow>
          (case render df date_range s1 of
             (Inl e, s2) \<Rightarrow> (Uncaught e, s2)
           | (Inr p, s2) \<Rightarrow> (Rendered p, s2)))"


definition new_session :: state where
  "new_session = \<lparr>cache = None, heap = []\<rparr>"

section \<open>Record sets of the specification, and sample data\<close>

text \<open>
  The specification's data model asks of a record set that its date index has no
  duplicates and increases, and that every row carries the nine metric columns. The
  loader does not check either; they are hypotheses where a property needs them.
  \<open>is_normalized\<close> says that every index entry is a calendar date, that is, a
  timestamp at midnight.
\<close>

definition valid_record_set :: "dataframe \<Rightarrow> bool" where
  "valid_record_set df =
     (sorted_wrt (<) (index_of df) \<and> list_all (\<lambda>c. c \<in> set (columns df)) table_columns)"

definition is_normalized :: "timestamp list \<Rightarrow> bool" where
  "is_normalized ks = list_all (\<lambda>k. k mod ns_per_day = 0) ks"

definition day_row :: "int \<Rightarrow> int \<Rightarrow> int \<Rightarrow> rat \<Rightarrow> timestamp \<times> cell list" where
  "day_row year month day q = (to_datetime year month day, NaN # replicate 8 (Num q))"

definition sample_df :: dataframe where
  "sample_df =
     \<lparr>columns = table_columns,
      rows = [day_row 2026 1 30 (1 / 8), day_row 2026 1 31 (3 / 8),
              day_row 2026 2 1 (5 / 2), day_row 2026 2 2 7]\<rparr>"

definition gap_df :: dataframe where
  "gap_df =
     \<lparr>columns = table_columns,
      rows = [day_row 2026 1 1 1, day_row 2026 3 1 2]\<rparr>"


section \<open>Properties of the filter\<close>

lemma sorted_filter_less_takeWhile:
  "sorted ks \<Longrightarrow> k \<in> set ks \<Longrightarrow> takeWhile (\<lambda>x. x \<noteq> k) ks = filter (\<lambda>x. x < k) (ks::int list)"
proof (induction ks)
  case Nil
  then show ?case by simp
next
  case (Cons a ks)
  show ?case
  proof (cases "a = k")
    case True
    with Cons.prems have "\<forall>x\<in>set ks. \<not> x < k" by auto
    then have "filter (\<lambda>x. x < k) ks = []" by (simp add: filter_empty_conv)
    with True show ?thesis by simp
  next
    case False
    with Cons.prems have "k \<in> set ks" "a < k" "sorted ks" by auto
    with Cons.IH False show ?thesis by simp
  qed
qed

lemma sorted_label_run:
  "sorted ks \<Longrightarrow>
     take (count_list ks k) (drop (length (filter (\<lambda>x. x < k) ks)) ks)
       = replicate (count_list ks k) (k::int)"
proof (induction ks)
  case Nil
  then show ?case by simp
next
  case (Cons a ks)
  then have srt: "sorted ks" and ge: "\<forall>x\<in>set ks. a \<le> x" by auto
  consider (lt) "a < k" | (eq) "a = k" | (gt) "k < a" by linarith
  then show ?case
  proof cases
    case lt
    with Cons.IH srt show ?thesis by simp
  next
    case eq
    with ge have "filter (\<lambda>x. x < k) ks = []" by (auto simp: filter_empty_conv)
    with Cons.IH srt eq show ?thesis by simp
  next
    case gt
    with ge have "k \<notin> set ks" by auto
    with gt show ?thesis by simp
  qed
qed

lemma length_filter_le_split:
  "length (filter (\<lambda>x. x < k) ks) + count_list ks k = length (filter (\<lambda>x. x \<le> (k::int)) ks)"
  by (induction ks) auto

lemma get_slice_bound_sorted:
  assumes "sorted ks"
  shows "get_slice_bound ks label sd = Inr (searchsorted ks label sd)"
proof (cases "label \<in> set ks")
  case True
  have i: "length (takeWhile (\<lambda>k. k \<noteq> label) ks) = length (filter (\<lambda>k. k < label) ks)"
    using sorted_filter_less_takeWhile [OF assms True] by simp
  have run: "take (count_list ks label) (drop (length (filter (\<lambda>k. k < label) ks)) ks)
               = replicate (count_list ks label) label"
    using sorted_label_run [OF assms] .
  show ?thesis
  proof (cases sd)
    case Left
    with True i run show ?thesis by (simp add: get_slice_bound_def)
  next
    case Right
    with True i run length_filter_le_split [of label ks] show ?thesis
      by (simp add: get_slice_bound_def)
  qed
next
  case False
  with assms show ?thesis
    by (simp add: get_slice_bound_def searchsorted_monotonic_def is_monotonic_increasing_def)
qed

lemma sorted_take_filter_le:
  "sorted (map fst rs) \<Longrightarrow>
     take (length (filter (\<lambda>x. x \<le> e) (map fst rs))) rs
       = filter (\<lambda>r. fst r \<le> (e::int)) rs"
proof (induction rs)
  case Nil
  then show ?case by simp
next
  case (Cons r rs)
  then have srt: "sorted (map fst rs)" and ge: "\<forall>x\<in>set rs. fst r \<le> fst x" by auto
  show ?case
  proof (cases "fst r \<le> e")
    case True
    with Cons.IH srt show ?thesis by simp
  next
    case False
    with ge have "\<forall>x\<in>set rs. \<not> fst x \<le> e" by auto
    then have "filter (\<lambda>r. fst r \<le> e) rs = []" "filter (\<lambda>x. x \<le> e) (map fst rs) = []"
      by (auto simp: filter_empty_conv)
    with False show ?thesis by simp
  qed
qed

lemma sorted_slice_filter:
  "sorted (map fst rs) \<Longrightarrow>
     drop (length (filter (\<lambda>x. x < s) (map fst rs)))
          (take (length (filter (\<lambda>x. x \<le> e) (map fst rs))) rs)
       = filter (\<lambda>r. s \<le> fst r \<and> fst r \<le> (e::int)) rs"
proof (induction rs)
  case Nil
  then show ?case by simp
next
  case (Cons r rs)
  then have srt: "sorted (map fst rs)" and ge: "\<forall>x\<in>set rs. fst r \<le> fst x" by auto
  show ?case
  proof (cases "fst r \<le> e")
    case le: True
    show ?thesis
    proof (cases "fst r < s")
      case True
      with le Cons.IH srt show ?thesis by simp
    next
      case False
      with ge have none: "filter (\<lambda>x. x < s) (map fst rs) = []"
        by (auto simp: filter_empty_conv)
      from False ge have "filter (\<lambda>r. s \<le> fst r \<and> fst r \<le> e) rs = filter (\<lambda>r. fst r \<le> e) rs"
        by (intro filter_cong) auto
      with False le none sorted_take_filter_le [OF srt, of e] show ?thesis by simp
    qed
  next
    case False
    with ge have "\<forall>x\<in>set rs. \<not> fst x \<le> e" by auto
    then have "filter (\<lambda>r. s \<le> fst r \<and> fst r \<le> e) rs = []"
      "filter (\<lambda>x. x \<le> e) (map fst rs) = []"
      by (auto simp: filter_empty_conv)
    with False show ?thesis by simp
  qed
qed

lemma loc_slice_sorted:
  assumes "sorted (index_of df)"
  shows "loc_slice df s e =
           Inr (df\<lparr>rows := filter (\<lambda>r. Timestamp s \<le> fst r \<and> fst r \<le> Timestamp e) (rows df)\<rparr>)"
  using assms sorted_slice_filter [of "rows df" "Timestamp s" "Timestamp e"]
  by (simp add: loc_slice_def bindE_def get_slice_bound_sorted index_of_def)

subsection \<open>Dates against timestamps\<close>

lemma Timestamp_le_iff: "Timestamp a \<le> Timestamp b \<longleftrightarrow> a \<le> b"
  by (simp add: Timestamp_def ns_per_day_def)

lemma mult_le_iff_le_div:
  assumes "0 < (n::int)"
  shows "a * n \<le> k \<longleftrightarrow> a \<le> k div n"
proof
  assume "a * n \<le> k"
  then have "a * n div n \<le> k div n" using assms by (rule zdiv_mono1)
  with assms show "a \<le> k div n" by simp
next
  assume "a \<le> k div n"
  then have "a * n \<le> (k div n) * n" using assms by (simp add: mult_right_mono)
  also have "\<dots> = k - k mod n" by (simp add: minus_mod_eq_div_mult)
  also have "\<dots> \<le> k" using assms by simp
  finally show "a * n \<le> k" .
qed

lemma le_mult_iff_div_le:
  assumes "0 < (n::int)" "k mod n = 0"
  shows "k \<le> a * n \<longleftrightarrow> k div n \<le> a"
proof -
  from assms(2) have "k = (k div n) * n" by (metis div_mult_mod_eq add.right_neutral)
  then have "k \<le> a * n \<longleftrightarrow> (k div n) * n \<le> a * n" by simp
  also have "\<dots> \<longleftrightarrow> k div n \<le> a" using assms(1) by simp
  finally show ?thesis .
qed

lemma Timestamp_le_date_of: "Timestamp a \<le> k \<longleftrightarrow> a \<le> date_of k"
  using mult_le_iff_le_div [of ns_per_day "a - epoch_ordinal" k]
  by (auto simp: Timestamp_def date_of_def ns_per_day_def)

lemma le_Timestamp_date_of:
  "k mod ns_per_day = 0 \<Longrightarrow> k \<le> Timestamp b \<longleftrightarrow> date_of k \<le> b"
  using le_mult_iff_div_le [of ns_per_day k "b - epoch_ordinal"]
  by (auto simp: Timestamp_def date_of_def ns_per_day_def)

lemma sorted_wrt_less_sorted: "sorted_wrt (<) ks \<Longrightarrow> sorted (ks::int list)"
  by (simp add: strict_sorted_iff)

lemma sorted_wrt_less_distinct: "sorted_wrt (<) ks \<Longrightarrow> distinct (ks::int list)"
  by (simp add: strict_sorted_iff)

lemma to_datetime_values:
  "to_datetime 2026 1 1 = 1767225600000000000"
  "to_datetime 2026 1 30 = 1769731200000000000"
  "to_datetime 2026 1 31 = 1769817600000000000"
  "to_datetime 2026 2 1 = 1769904000000000000"
  "to_datetime 2026 2 2 = 1769990400000000000"
  "to_datetime 2026 2 16 = 1771200000000000000"
  "to_datetime 2026 3 1 = 1772323200000000000"
  by (simp_all add: to_datetime_def Timestamp_def ymd2ord_def days_before_year_def
      days_before_month_def is_leap_def epoch_ordinal_def ns_per_day_def)

lemma ymd2ord_values:
  "ymd2ord 2026 1 1 = 739617"
  "ymd2ord 2026 1 31 = 739647"
  "ymd2ord 2026 2 1 = 739648"
  "ymd2ord 2026 2 2 = 739649"
  "ymd2ord 2026 2 10 = 739657"
  "ymd2ord 2026 2 16 = 739663"
  "ymd2ord 1970 1 1 = epoch_ordinal"
  by (simp_all add: ymd2ord_def days_before_year_def days_before_month_def is_leap_def
      epoch_ordinal_def)

lemma Timestamp_values:
  "Timestamp 739617 = 1767225600000000000"
  "Timestamp 739647 = 1769817600000000000"
  "Timestamp 739648 = 1769904000000000000"
  "Timestamp 739649 = 1769990400000000000"
  "Timestamp 739657 = 1770681600000000000"
  "Timestamp 739663 = 1771200000000000000"
  by (simp_all add: Timestamp_def epoch_ordinal_def ns_per_day_def)

lemma sample_df_index:
  "index_of sample_df =
     [1769731200000000000, 1769817600000000000, 1769904000000000000, 1769990400000000000]"
  by (simp add: sample_df_def index_of_def day_row_def to_datetime_values)

lemma gap_df_index: "index_of gap_df = [1767225600000000000, 1772323200000000000]"
  by (simp add: gap_df_def index_of_def day_row_def to_datetime_values)

lemma distinct_key_count:
  "distinct (map fst rs) \<Longrightarrow>
     length (filter (\<lambda>r. fst r = k) rs) = (if k \<in> fst ` set rs then 1 else 0)"
  by (induction rs) (auto simp: image_iff)

subsection \<open>The fallback of the filter\<close>

text \<open>
  C4. When the selection is not a pair of dates (the picker holds no date or a single
  one), the filter does not fail: it returns the whole record set.
\<close>

theorem filtered_df_fallback:
  "length date_range \<noteq> 2 \<Longrightarrow> filtered_df df date_range = Inr df"
  by (simp add: filtered_df_def copy_def)

theorem filtered_df_fallback_witness:
  "length [ymd2ord 2026 2 1] \<noteq> 2 \<and> filtered_df sample_df [ymd2ord 2026 2 1] = Inr sample_df"
  using filtered_df_fallback [of "[ymd2ord 2026 2 1]" sample_df] by simp

subsection \<open>The inclusive slice\<close>

text \<open>
  C5. On a record set whose date index is strictly increasing, the filter with a pair
  \<open>(start, end)\<close> returns, in their order, exactly the records whose index lies between
  midnight of \<open>start\<close> and midnight of \<open>end\<close>, both included. When the index holds
  calendar dates, these are the records whose date \<open>d\<close> has \<open>start \<le> d \<le> end\<close>.
\<close>

theorem filtered_df_inclusive:
  assumes "sorted_wrt (<) (index_of df)"
  shows "filtered_df df [start, end] =
           Inr (df\<lparr>rows := filter (\<lambda>r. Timestamp start \<le> fst r \<and> fst r \<le> Timestamp end) (rows df)\<rparr>)
         \<and> (is_normalized (index_of df) \<longrightarrow>
              filter (\<lambda>r. Timestamp start \<le> fst r \<and> fst r \<le> Timestamp end) (rows df)
                = filter (\<lambda>r. start \<le> date_of (fst r) \<and> date_of (fst r) \<le> end) (rows df))"
proof
  from assms have "sorted (index_of df)" by (rule sorted_wrt_less_sorted)
  then show "filtered_df df [start, end] =
           Inr (df\<lparr>rows := filter (\<lambda>r. Timestamp start \<le> fst r \<and> fst r \<le> Timestamp end) (rows df)\<rparr>)"
    by (simp add: filtered_df_def loc_slice_sorted)
next
  show "is_normalized (index_of df) \<longrightarrow>
              filter (\<lambda>r. Timestamp start \<le> fst r \<and> fst r \<le> Timestamp end) (rows df)
                = filter (\<lambda>r. start \<le> date_of (fst r) \<and> date_of (fst r) \<le> end) (rows df)"
  proof
    assume "is_normalized (index_of df)"
    then have "\<forall>r\<in>set (rows df). fst r mod ns_per_day = 0"
      by (simp add: is_normalized_def index_of_def list_all_iff)
    then show "filter (\<lambda>r. Timestamp start \<le> fst r \<and> fst r \<le> Timestamp end) (rows df)
                = filter (\<lambda>r. start \<le> date_of (fst r) \<and> date_of (fst r) \<le> end) (rows df)"
      by (intro filter_cong) (auto simp: Timestamp_le_date_of le_Timestamp_date_of)
  qed
qed

theorem filtered_df_inclusive_witness:
  "sorted_wrt (<) (index_of sample_df) \<and> is_normalized (index_of sample_df)
   \<and> filtered_df sample_df [ymd2ord 2026 1 31, ymd2ord 2026 2 1]
       = Inr (sample_df\<lparr>rows := [day_row 2026 1 31 (3 / 8), day_row 2026 2 1 (5 / 2)]\<rparr>)"
proof -
  have srt: "sorted_wrt (<) (index_of sample_df)" by (simp add: sample_df_index)
  have nrm: "is_normalized (index_of sample_df)"
    by (simp add: sample_df_index is_normalized_def ns_per_day_def)
  have "filter (\<lambda>r. Timestamp (ymd2ord 2026 1 31) \<le> fst r \<and> fst r \<le> Timestamp (ymd2ord 2026 2 1))
          (rows sample_df) = [day_row 2026 1 31 (3 / 8), day_row 2026 2 1 (5 / 2)]"
    by (simp add: sample_df_def day_row_def to_datetime_values ymd2ord_values Timestamp_values)
  with srt nrm filtered_df_inclusive [OF srt, of "ymd2ord 2026 1 31" "ymd2ord 2026 2 1"]
  show ?thesis by simp
qed

subsection \<open>The slice of the first day\<close>

text \<open>
  C7. On a valid record set, selecting \<open>start = end = min(date)\<close> gives a slice of
  exactly one record when that date (its midnight) is an entry of the index, and of no
  record when it is not.
\<close>

theorem filtered_df_min_date_count:
  assumes "valid_record_set df" and "min_date df = Some d"
  shows "\<exists>fdf. filtered_df df [d, d] = Inr fdf
           \<and> length (rows fdf) = (if Timestamp d \<in> set (index_of df) then 1 else 0)"
proof -
  from assms(1) have strict: "sorted_wrt (<) (index_of df)" by (simp add: valid_record_set_def)
  then have dist: "distinct (map fst (rows df))"
    using sorted_wrt_less_distinct by (simp add: index_of_def)
  have eq: "filter (\<lambda>r. Timestamp d \<le> fst r \<and> fst r \<le> Timestamp d) (rows df)
              = filter (\<lambda>r. fst r = Timestamp d) (rows df)"
    by (intro filter_cong) auto
  have "length (filter (\<lambda>r. Timestamp d \<le> fst r \<and> fst r \<le> Timestamp d) (rows df))
          = (if Timestamp d \<in> set (index_of df) then 1 else 0)"
    using distinct_key_count [OF dist, of "Timestamp d"] by (simp add: eq index_of_def)
  moreover have "filtered_df df [d, d] =
      Inr (df\<lparr>rows := filter (\<lambda>r. Timestamp d \<le> fst r \<and> fst r \<le> Timestamp d) (rows df)\<rparr>)"
    using sorted_wrt_less_sorted [OF strict] by (simp add: filtered_df_def loc_slice_sorted)
  ultimately show ?thesis by simp
qed

theorem filtered_df_min_date_count_witness:
  "valid_record_set sample_df \<and> min_date sample_df = Some (ymd2ord 2026 1 30)
   \<and> (\<exists>fdf. filtered_df sample_df [ymd2ord 2026 1 30, ymd2ord 2026 1 30] = Inr fdf
          \<and> length (rows fdf) = 1)"
proof -
  have v: "valid_record_set sample_df"
    by (simp add: valid_record_set_def sample_df_index) (simp add: sample_df_def list_all_iff)
  have m: "min_date sample_df = Some (ymd2ord 2026 1 30)"
    by (simp add: min_date_def index_min_def sample_df_index date_of_def ns_per_day_def
        epoch_ordinal_def ymd2ord_def days_before_year_def days_before_month_def is_leap_def)
  have "Timestamp (ymd2ord 2026 1 30) \<in> set (index_of sample_df)"
    by (simp add: sample_df_index ymd2ord_def days_before_year_def days_before_month_def
        is_leap_def Timestamp_def epoch_ordinal_def ns_per_day_def)
  with v m filtered_df_min_date_count [OF v m] show ?thesis by simp
qed

section \<open>Properties of loading\<close>

text \<open>
  C3. Loading fails in two ways, and both end the run. A missing file shows the fixed
  message; any other exception of the load shows a message that ends with the text of
  the exception. In both cases the run stops with the session as it was: nothing is
  stored in the cache and no frame is created, and the load is not attempted again
  within the run.
\<close>

theorem load_failure_halts:
  "load_data (Inl FileNotFoundError) = Halted missing_file_message
   \<and> load_data (Inl (OtherException e)) = Halted (''Error loading data: '' @ e)
   \<and> (cache s = None \<longrightarrow>
        script (Inl FileNotFoundError) date_range s = (Stopped missing_file_message, s)
        \<and> script (Inl (OtherException e)) date_range s
            = (Stopped (''Error loading data: '' @ e), s))"
  by (simp add: load_data_def script_def load_data_cached_def)

theorem load_failure_halts_witness:
  "cache new_session = None
   \<and> script (Inl FileNotFoundError) [] new_session = (Stopped missing_file_message, new_session)
   \<and> script (Inl (OtherException ''No columns to parse from file'')) [] new_session
       = (Stopped ''Error loading data: No columns to parse from file'', new_session)"
  using load_failure_halts [of "''No columns to parse from file''" new_session "[]"]
  by (simp add: new_session_def)

section \<open>Properties of the chart builders\<close>



lemma index_max_ge_iff:
  "ts_le (Some a) (index_max df) \<longleftrightarrow> (\<exists>k\<in>set (index_of df). a \<le> k)"
proof (cases "index_of df")
  case Nil
  then show ?thesis by (simp add: index_max_def)
next
  case (Cons k ks)
  have "fold max ks k = Max (set (k # ks))" by (simp only: Max.set_eq_fold)
  with Cons show ?thesis by (simp add: index_max_def Max_ge_iff)
qed

lemma index_min_le_iff:
  "ts_ge (Some a) (index_min df) \<longleftrightarrow> (\<exists>k\<in>set (index_of df). k \<le> a)"
proof (cases "index_of df")
  case Nil
  then show ?thesis by (simp add: index_min_def)
next
  case (Cons k ks)
  have "fold min ks k = Min (set (k # ks))" by (simp only: Min.set_eq_fold)
  with Cons show ?thesis by (simp add: index_min_def Min_le_iff)
qed

lemma fig1_shapes:
  "fig1 fdf = Inr f \<Longrightarrow> shapes f = (if correction_in_range fdf then [correction_vrect] else [])"
  by (auto simp: fig1_def bindE_def split: sum.splits)

lemma correction_in_range_iff:
  "correction_in_range fdf \<longleftrightarrow>
     (\<exists>k\<in>set (index_of fdf). to_datetime 2026 2 1 \<le> k)
     \<and> (\<exists>k\<in>set (index_of fdf). k \<le> to_datetime 2026 2 16)"
  by (simp only: correction_in_range_def index_max_ge_iff index_min_le_iff)

subsection \<open>The correction band\<close>

text \<open>
  C1, as the code has it. The band is decided from the filtered slice, not from the
  selected dates: it is added exactly when the slice has a record at or after
  2026-02-01 and a record at or before 2026-02-16, that is, when the span from its
  earliest to its latest record meets the fixed interval. A band therefore implies that
  the selected range \<open>[start, end]\<close> overlaps the fixed interval; the converse fails
  when the records inside the selected range do not reach the interval.
\<close>

theorem correction_band_iff:
  assumes "sorted (index_of df)"
    and "filtered_df df [start, end] = Inr fdf"
    and "fig1 fdf = Inr f"
  shows "(correction_vrect \<in> set (shapes f) \<longleftrightarrow>
            (\<exists>k\<in>set (index_of fdf). to_datetime 2026 2 1 \<le> k)
            \<and> (\<exists>k\<in>set (index_of fdf). k \<le> to_datetime 2026 2 16))
         \<and> (correction_vrect \<in> set (shapes f) \<longrightarrow>
              start \<le> end \<and> start \<le> ymd2ord 2026 2 16 \<and> ymd2ord 2026 2 1 \<le> end)"
proof -
  have band: "correction_vrect \<in> set (shapes f) \<longleftrightarrow> correction_in_range fdf"
    using fig1_shapes [OF assms(3)] by simp
  have slice: "rows fdf = filter (\<lambda>r. Timestamp start \<le> fst r \<and> fst r \<le> Timestamp end) (rows df)"
    using assms(1,2) by (auto simp: filtered_df_def loc_slice_sorted)
  have inside: "Timestamp start \<le> k \<and> k \<le> Timestamp end" if "k \<in> set (index_of fdf)" for k
    using that by (auto simp: index_of_def slice)
  have "start \<le> end \<and> start \<le> ymd2ord 2026 2 16 \<and> ymd2ord 2026 2 1 \<le> end"
    if "correction_in_range fdf"
  proof -
    from that obtain a b where a: "a \<in> set (index_of fdf)" "to_datetime 2026 2 1 \<le> a"
      and b: "b \<in> set (index_of fdf)" "b \<le> to_datetime 2026 2 16"
      by (auto simp: correction_in_range_iff)
    from inside [OF a(1)] a(2) have "Timestamp (ymd2ord 2026 2 1) \<le> Timestamp end"
      by (simp add: to_datetime_def)
    moreover from inside [OF b(1)] b(2) have "Timestamp start \<le> Timestamp (ymd2ord 2026 2 16)"
      by (simp add: to_datetime_def)
    moreover from inside [OF a(1)] have "Timestamp start \<le> Timestamp end" by simp
    ultimately show ?thesis by (simp add: Timestamp_le_iff)
  qed
  with band show ?thesis by (simp add: correction_in_range_iff)
qed


lemma fig1_sample_slice:
  "map_sum id shapes (fig1 (sample_df\<lparr>rows := [day_row 2026 1 31 (3 / 8), day_row 2026 2 1 (5 / 2)]\<rparr>))
     = Inr [correction_vrect]"
  by (simp add: fig1_def bindE_def getitem_def sample_df_def table_columns_def
      correction_in_range_def index_max_def index_min_def index_of_def day_row_def
      to_datetime_values)

theorem correction_band_iff_witness:
  "sorted (index_of sample_df)
   \<and> filtered_df sample_df [ymd2ord 2026 1 31, ymd2ord 2026 2 1]
       = Inr (sample_df\<lparr>rows := [day_row 2026 1 31 (3 / 8), day_row 2026 2 1 (5 / 2)]\<rparr>)
   \<and> map_sum id shapes (fig1 (sample_df\<lparr>rows := [day_row 2026 1 31 (3 / 8), day_row 2026 2 1 (5 / 2)]\<rparr>))
       = Inr [correction_vrect]
   \<and> ymd2ord 2026 1 31 \<le> ymd2ord 2026 2 1
   \<and> ymd2ord 2026 1 31 \<le> ymd2ord 2026 2 16
   \<and> ymd2ord 2026 2 1 \<le> ymd2ord 2026 2 1"
proof -
  let ?fdf = "sample_df\<lparr>rows := [day_row 2026 1 31 (3 / 8), day_row 2026 2 1 (5 / 2)]\<rparr>"
  have srt: "sorted (index_of sample_df)" by (simp add: sample_df_index)
  have flt: "filtered_df sample_df [ymd2ord 2026 1 31, ymd2ord 2026 2 1] = Inr ?fdf"
    by (simp add: filtered_df_def loc_slice_sorted [OF srt])
      (simp add: sample_df_def day_row_def to_datetime_values ymd2ord_values Timestamp_values)
  from fig1_sample_slice obtain f where f: "fig1 ?fdf = Inr f" and sh: "shapes f = [correction_vrect]"
    by (cases "fig1 ?fdf") auto
  from correction_band_iff [OF srt flt f] sh flt srt fig1_sample_slice show ?thesis by simp
qed

text \<open>
  C1 as the specification states it fails. The record set \<open>gap_df\<close> has a record on
  2026-01-01 and one on 2026-03-01; the selection 2026-01-01 to 2026-02-10 overlaps the
  fixed interval, its slice holds the first record only, and no band is drawn.
\<close>

theorem correction_band_counterexample:
  "valid_record_set gap_df
   \<and> filtered_df gap_df [ymd2ord 2026 1 1, ymd2ord 2026 2 10]
       = Inr (gap_df\<lparr>rows := [day_row 2026 1 1 1]\<rparr>)
   \<and> map_sum id shapes (fig1 (gap_df\<lparr>rows := [day_row 2026 1 1 1]\<rparr>)) = Inr []
   \<and> ymd2ord 2026 1 1 \<le> ymd2ord 2026 2 10
   \<and> ymd2ord 2026 1 1 \<le> ymd2ord 2026 2 16
   \<and> ymd2ord 2026 2 1 \<le> ymd2ord 2026 2 10"
proof -
  have srt: "sorted (index_of gap_df)" by (simp add: gap_df_index)
  have v: "valid_record_set gap_df"
    by (simp add: valid_record_set_def gap_df_index) (simp add: gap_df_def list_all_iff)
  have flt: "filtered_df gap_df [ymd2ord 2026 1 1, ymd2ord 2026 2 10]
               = Inr (gap_df\<lparr>rows := [day_row 2026 1 1 1]\<rparr>)"
    by (simp add: filtered_df_def loc_slice_sorted [OF srt])
      (simp add: gap_df_def day_row_def to_datetime_values ymd2ord_values Timestamp_values)
  have fig: "map_sum id shapes (fig1 (gap_df\<lparr>rows := [day_row 2026 1 1 1]\<rparr>)) = Inr []"
    by (simp add: fig1_def bindE_def getitem_def gap_df_def table_columns_def
        correction_in_range_def index_max_def index_min_def index_of_def day_row_def
        to_datetime_values)
  from v flt fig show ?thesis by (simp add: ymd2ord_values)
qed

subsection \<open>An inverted range\<close>






section \<open>Properties of a run\<close>

























subsection \<open>The loaded record set is never changed\<close>



subsection \<open>The recent table and the download\<close>




subsection \<open>Rounded table, unrounded download\<close>

lemma round_half_even_12_5: "round_half_even (25 / 2) = 12"
proof -
  have "\<lfloor>25 / 2 :: rat\<rfloor> = 12" by (rule floor_unique) simp_all
  then show ?thesis by (simp add: round_half_even_def Let_def)
qed

lemma round_cell_eighth: "round_cell 2 (Num (1 / 8)) = Num (3 / 25)"
  by (simp add: round_half_even_12_5)



end
